theory Spec2Isabelle
  imports Main "HOL-Library.Word"
begin

section \<open>The arena allocator and the owning container of main.cpp\<close>

text \<open>
  \<^verbatim>\<open>CustomAllocator<T>\<close> hands out storage from a \<^verbatim>\<open>std::vector<char>\<close> by
  advancing a byte cursor; \<^verbatim>\<open>CustomContainer<T, Alloc>\<close> constructs its elements in
  that storage and keeps their addresses.

  Conventions of the embedding:
  \<^item> \<^verbatim>\<open>size_t\<close> is a 64-bit word (an LP64 target), so \<open>+\<close> and \<open>*\<close> wrap around as
    the unsigned arithmetic of the source does;
  \<^item> \<^verbatim>\<open>sizeof(T)\<close> is a parameter \<open>sizeof_T\<close> of every operation that uses it;
  \<^item> of the \<^verbatim>\<open>std::vector<char> buffer\<close> the allocator uses \<^verbatim>\<open>size()\<close> and
    \<^verbatim>\<open>data()\<close>. The field \<open>buffer\<close> is \<^verbatim>\<open>buffer.size()\<close>. The field
    \<open>buffer_data\<close> stands for \<^verbatim>\<open>buffer.data()\<close>: it numbers the blocks of storage
    the vector has owned, 0 for the empty vector, and goes up by one whenever
    \<^verbatim>\<open>resize\<close> makes the vector larger. The vector is taken to have no spare
    capacity, so that a growing \<^verbatim>\<open>resize\<close> moves the elements to a new block and
    releases the old one; the allocator never reserves capacity, and for the first
    growth after construction this is what libstdc++, libc++ and the MSVC library do.
    At a later growth a library that has spare capacity left keeps the block, and
    the model still counts a move;
  \<^item> a \<^verbatim>\<open>T*\<close> is either \<^verbatim>\<open>nullptr\<close> or \<open>Ptr b k\<close>, the address \<open>k\<close> bytes after
    the start of block \<open>b\<close>. Where the blocks lie in memory is not modelled. The
    \<^verbatim>\<open>data()\<close> of a vector that is still empty may be the null pointer; the model
    writes the addresses formed from it \<open>Ptr 0 k\<close> and keeps \<open>Ptr 0 0\<close> apart from
    \<^verbatim>\<open>nullptr\<close>;
  \<^item> an exception of the library, and an access through a pointer that is null, points
    into a released block or beyond the end of the buffer, are values of the type
    \<open>failure\<close>.
\<close>

type_synonym size_t = "64 word"

datatype pointer = nullptr | Ptr nat size_t

datatype failure = length_error | undefined_behaviour

subsection \<open>The allocator\<close>

record allocator =
  block_size :: size_t
  allocated :: size_t
  buffer :: size_t
  buffer_data :: nat
  allocated_objects :: "pointer set"

text \<open>
  \<^verbatim>\<open>std::vector<char>::max_size()\<close>: \<^verbatim>\<open>PTRDIFF_MAX\<close> on a 64-bit target. A
  \<^verbatim>\<open>resize\<close> beyond it throws \<^verbatim>\<open>std::length_error\<close>; running out of memory
  (\<^verbatim>\<open>std::bad_alloc\<close>) depends on the machine and is not modelled.
\<close>

definition vector_max_size :: size_t where
  "vector_max_size = 0x7FFFFFFFFFFFFFFF"

text \<open>
  \<^verbatim>\<open>void expand() { buffer.resize(buffer.size() + block_size * sizeof(T)); }\<close>
  The new size is computed in \<^verbatim>\<open>size_t\<close>. A \<^verbatim>\<open>resize\<close> to a larger size takes a
  new block; one to the same or a smaller size keeps the block.
\<close>

definition expand :: "size_t \<Rightarrow> allocator \<Rightarrow> failure + allocator" where
  "expand sizeof_T a =
     (let n = buffer a + block_size a * sizeof_T
      in if n \<le> vector_max_size
         then Inr (a\<lparr>buffer := n,
                     buffer_data := (if buffer a < n then buffer_data a + 1
                                     else buffer_data a)\<rparr>)
         else Inl length_error)"

text \<open>
  \<^verbatim>\<open>explicit CustomAllocator(size_t block_size) : block_size(block_size), allocated(0)
  { expand(); }\<close> and \<^verbatim>\<open>CustomAllocator() : CustomAllocator(10) {}\<close>
\<close>

definition CustomAllocator :: "size_t \<Rightarrow> size_t \<Rightarrow> failure + allocator" where
  "CustomAllocator sizeof_T bs =
     expand sizeof_T
       \<lparr>block_size = bs, allocated = 0, buffer = 0, buffer_data = 0, allocated_objects = {}\<rparr>"

definition CustomAllocator_default :: "size_t \<Rightarrow> failure + allocator" where
  "CustomAllocator_default sizeof_T = CustomAllocator sizeof_T 10"

text \<open>
  \<^verbatim>\<open>T* allocate(std::size_t n)\<close>: null for \<open>n = 0\<close>; otherwise at most one call of
  \<^verbatim>\<open>expand\<close>, then \<^verbatim>\<open>buffer.data() + allocated\<close> is returned, the cursor is
  advanced by \<open>n * sizeof(T)\<close>, and the returned address is inserted into
  \<^verbatim>\<open>allocated_objects\<close>.
\<close>

definition allocate :: "size_t \<Rightarrow> allocator \<Rightarrow> size_t \<Rightarrow> failure + (pointer \<times> allocator)" where
  "allocate sizeof_T a n =
     (if n = 0 then Inr (nullptr, a)
      else
        case (if allocated a + n * sizeof_T > buffer a then expand sizeof_T a else Inr a) of
          Inl e \<Rightarrow> Inl e
        | Inr a' \<Rightarrow>
            let result = Ptr (buffer_data a') (allocated a')
            in Inr (result,
                 a'\<lparr>allocated := allocated a' + n * sizeof_T,
                    allocated_objects := insert result (allocated_objects a')\<rparr>))"

text \<open>
  \<^verbatim>\<open>void deallocate(T* p, std::size_t n)\<close>: when \<open>p\<close> is tracked it is erased and
  \<^verbatim>\<open>p->~T()\<close> runs. The second component of the result lists the addresses whose
  destructor the call has run, in order.
\<close>

definition deallocate :: "allocator \<Rightarrow> pointer \<Rightarrow> size_t \<Rightarrow> allocator \<times> pointer list" where
  "deallocate a p n =
     (if p \<in> allocated_objects a
      then (a\<lparr>allocated_objects := allocated_objects a - {p}\<rparr>, [p])
      else (a, []))"

text \<open>
  A client of the allocator is a sequence of calls. \<open>run\<close> performs them in order,
  stops at the first exception, and returns every allocation made, as the pair of
  the address returned and the count asked for, together with the final state.
\<close>

datatype call = Allocate size_t | Deallocate pointer size_t

fun run :: "size_t \<Rightarrow> allocator \<Rightarrow> call list
    \<Rightarrow> failure + ((pointer \<times> size_t) list \<times> allocator)" where
  "run sizeof_T a [] = Inr ([], a)"
| "run sizeof_T a (Allocate n # cs) =
     (case allocate sizeof_T a n of
        Inl e \<Rightarrow> Inl e
      | Inr (p, a') \<Rightarrow>
          (case run sizeof_T a' cs of
             Inl e \<Rightarrow> Inl e
           | Inr (rs, a'') \<Rightarrow> Inr ((p, n) # rs, a'')))"
| "run sizeof_T a (Deallocate p n # cs) = run sizeof_T (fst (deallocate a p n)) cs"

text \<open>The bytes a sequence of calls asks for, as a natural number (no wrap-around).\<close>

fun bytes_requested :: "size_t \<Rightarrow> call list \<Rightarrow> nat" where
  "bytes_requested sizeof_T [] = 0"
| "bytes_requested sizeof_T (Allocate n # cs) =
     unat n * unat sizeof_T + bytes_requested sizeof_T cs"
| "bytes_requested sizeof_T (Deallocate p n # cs) = bytes_requested sizeof_T cs"

text \<open>Every \<open>allocate\<close> of the sequence asks for at most \<open>bs\<close> elements.\<close>

fun requests_at_most :: "size_t \<Rightarrow> call list \<Rightarrow> bool" where
  "requests_at_most bs [] = True"
| "requests_at_most bs (Allocate n # cs) = (n \<le> bs \<and> requests_at_most bs cs)"
| "requests_at_most bs (Deallocate p n # cs) = requests_at_most bs cs"

text \<open>
  The bytes of an allocation, as positions in the buffer: for the address \<open>Ptr b k\<close>
  and the count \<open>n\<close> the half-open range from \<open>k\<close> to \<open>k + n * sizeof(T)\<close>, as natural
  numbers. The contents of the buffer keep their positions when the vector grows,
  so the block plays no part. The null pointer of a zero-size request has no bytes.
\<close>

definition span :: "size_t \<Rightarrow> pointer \<times> size_t \<Rightarrow> nat \<times> nat" where
  "span sizeof_T r =
     (case fst r of
        nullptr \<Rightarrow> (0, 0)
      | Ptr b k \<Rightarrow> (unat k, unat k + unat (snd r) * unat sizeof_T))"

definition bytes_of :: "nat \<times> nat \<Rightarrow> nat set" where
  "bytes_of s = {fst s ..< snd s}"

definition overlap :: "nat \<times> nat \<Rightarrow> nat \<times> nat \<Rightarrow> bool" where
  "overlap s t \<longleftrightarrow> max (fst s) (fst t) < min (snd s) (snd t)"


text \<open>The invariant the specification states for the cursor.\<close>

definition cursor_in_buffer :: "allocator \<Rightarrow> bool" where
  "cursor_in_buffer a \<longleftrightarrow> allocated a \<le> buffer a"

subsection \<open>The container\<close>

text \<open>
  \<^verbatim>\<open>CustomContainer<T, Alloc>\<close> holds its allocator by value and the vector
  \<^verbatim>\<open>data\<close> of element addresses. The elements themselves live in the allocator's
  buffer: \<open>objects\<close> is the current block of that buffer read as objects of type
  \<open>T\<close>, keyed by the position at which an object starts. A growing \<^verbatim>\<open>resize\<close> copies
  the bytes, so the objects keep their positions in the new block.
\<close>

record 'a container =
  alloc :: allocator
  data :: "pointer list"
  objects :: "size_t \<rightharpoonup> 'a"

text \<open>
  \<^verbatim>\<open>new(p) T(value)\<close>: the object is written at \<open>p\<close>. Writing through the null
  pointer, into a block the vector has released or beyond the end of the buffer is
  undefined behaviour; an object whose bytes the new one overwrites is gone.
\<close>

definition construct_at ::
    "size_t \<Rightarrow> allocator \<Rightarrow> (size_t \<rightharpoonup> 'a) \<Rightarrow> pointer \<Rightarrow> 'a
      \<Rightarrow> failure + (size_t \<rightharpoonup> 'a)" where
  "construct_at sizeof_T a m p v =
     (case p of
        nullptr \<Rightarrow> Inl undefined_behaviour
      | Ptr b k \<Rightarrow>
          if b = buffer_data a \<and> unat k + unat sizeof_T \<le> unat (buffer a)
          then Inr ((\<lambda>j. if overlap (unat j, unat j + unat sizeof_T)
                                   (unat k, unat k + unat sizeof_T)
                          then None else m j)(k \<mapsto> v))
          else Inl undefined_behaviour)"

text \<open>
  \<^verbatim>\<open>*p\<close>: defined where \<open>p\<close> points into the current block of the buffer and an
  object has been constructed there.
\<close>

definition deref :: "'a container \<Rightarrow> pointer \<Rightarrow> failure + 'a" where
  "deref c p =
     (case p of
        nullptr \<Rightarrow> Inl undefined_behaviour
      | Ptr b k \<Rightarrow>
          if b = buffer_data (alloc c)
          then (case objects c k of None \<Rightarrow> Inl undefined_behaviour | Some v \<Rightarrow> Inr v)
          else Inl undefined_behaviour)"

text \<open>
  \<^verbatim>\<open>CustomContainer(Alloc alloc = Alloc()) : alloc(alloc) {}\<close>: the allocator is
  copied member by member; no element has been constructed yet. (The copy of the
  vector has a block of its own; the container uses no other allocator, so the
  number of that block is kept.)
\<close>

definition CustomContainer :: "allocator \<Rightarrow> 'a container" where
  "CustomContainer a = \<lparr>alloc = a, data = [], objects = Map.empty\<rparr>"

definition CustomContainer_default :: "size_t \<Rightarrow> failure + 'a container" where
  "CustomContainer_default sizeof_T =
     (case CustomAllocator_default sizeof_T of
        Inl e \<Rightarrow> Inl e
      | Inr a \<Rightarrow> Inr (CustomContainer a))"

text \<open>
  \<^verbatim>\<open>void add(const T& value) { T* p = alloc.allocate(1); new(p) T(value);
  data.push_back(p); }\<close>
\<close>

definition add :: "size_t \<Rightarrow> 'a container \<Rightarrow> 'a \<Rightarrow> failure + 'a container" where
  "add sizeof_T c v =
     (case allocate sizeof_T (alloc c) 1 of
        Inl e \<Rightarrow> Inl e
      | Inr (p, a') \<Rightarrow>
          (case construct_at sizeof_T a' (objects c) p v of
             Inl e \<Rightarrow> Inl e
           | Inr m \<Rightarrow> Inr \<lparr>alloc = a', data = data c @ [p], objects = m\<rparr>))"

text \<open>
  \<^verbatim>\<open>void display() const { for (auto p : data) std::cout << *p << " ";
  std::cout << std::endl; }\<close> The result is the text written to the stream;
  \<open>shw\<close> is \<^verbatim>\<open>operator<<\<close> of the element type.
\<close>

fun display_loop ::
    "('a \<Rightarrow> string) \<Rightarrow> 'a container \<Rightarrow> string \<Rightarrow> pointer list \<Rightarrow> failure + string" where
  "display_loop shw c out [] = Inr out"
| "display_loop shw c out (p # ps) =
     (case deref c p of
        Inl e \<Rightarrow> Inl e
      | Inr v \<Rightarrow> display_loop shw c (out @ shw v @ '' '') ps)"

definition display :: "('a \<Rightarrow> string) \<Rightarrow> 'a container \<Rightarrow> failure + string" where
  "display shw c =
     (case display_loop shw c [] (data c) of
        Inl e \<Rightarrow> Inl e
      | Inr out \<Rightarrow> Inr (out @ [CHR 0x0A]))"

text \<open>
  Iteration from \<^verbatim>\<open>begin()\<close> to \<^verbatim>\<open>end()\<close> goes through \<^verbatim>\<open>data\<close>; the value of
  an element is \<^verbatim>\<open>**it\<close>.
\<close>

fun iterate :: "'a container \<Rightarrow> pointer list \<Rightarrow> failure + 'a list" where
  "iterate c [] = Inr []"
| "iterate c (p # ps) =
     (case deref c p of
        Inl e \<Rightarrow> Inl e
      | Inr v \<Rightarrow> (case iterate c ps of Inl e \<Rightarrow> Inl e | Inr vs \<Rightarrow> Inr (v # vs)))"

text \<open>\<^verbatim>\<open>size()\<close> is \<^verbatim>\<open>data.size()\<close> and \<^verbatim>\<open>empty()\<close> is \<^verbatim>\<open>data.empty()\<close>.\<close>

definition container_size :: "'a container \<Rightarrow> nat" where
  "container_size c = length (data c)"

definition container_empty :: "'a container \<Rightarrow> bool" where
  "container_empty c \<longleftrightarrow> data c = []"

text \<open>A loop of \<^verbatim>\<open>add\<close> calls; it stops at the first failure.\<close>

fun add_all :: "size_t \<Rightarrow> 'a container \<Rightarrow> 'a list \<Rightarrow> failure + 'a container" where
  "add_all sizeof_T c [] = Inr c"
| "add_all sizeof_T c (v # vs) =
     (case add sizeof_T c v of
        Inl e \<Rightarrow> Inl e
      | Inr c' \<Rightarrow> add_all sizeof_T c' vs)"

text \<open>
  \<^verbatim>\<open>CustomContainer<int, CustomAllocator<int>> my_container;
  for (...) my_container.add(i);\<close> as in \<^verbatim>\<open>main\<close>: a container over the default
  allocator that receives the values \<open>vs\<close>.
\<close>

definition my_container :: "size_t \<Rightarrow> 'a list \<Rightarrow> failure + 'a container" where
  "my_container sizeof_T vs =
     (case CustomContainer_default sizeof_T of
        Inl e \<Rightarrow> Inl e
      | Inr c \<Rightarrow> add_all sizeof_T c vs)"

text \<open>
  \<^verbatim>\<open>std::cout << i\<close> for an \<^verbatim>\<open>int\<close>: the decimal digits, after a minus sign when
  the value is negative.
\<close>

fun decimal :: "nat \<Rightarrow> string" where
  "decimal n =
     (if n < 10 then [''0123456789'' ! n]
      else decimal (n div 10) @ [''0123456789'' ! (n mod 10)])"

definition show_int :: "32 word \<Rightarrow> string" where
  "show_int i =
     (if sint i < 0 then ''-'' @ decimal (nat (- sint i)) else decimal (nat (sint i)))"

text \<open>
  The invariant of a container that has received the values \<open>vs\<close> while its buffer
  stayed in one block: the \<open>i\<close>-th address of \<^verbatim>\<open>data\<close> points into that block,
  holds the \<open>i\<close>-th value, and its bytes lie below the allocator's cursor.
\<close>

definition holds :: "size_t \<Rightarrow> 'a container \<Rightarrow> 'a list \<Rightarrow> bool" where
  "holds sizeof_T c vs \<longleftrightarrow>
     list_all2 (\<lambda>p v. \<exists>k. p = Ptr (buffer_data (alloc c)) k \<and> objects c k = Some v
         \<and> unat k + unat sizeof_T \<le> unat (allocated (alloc c))) (data c) vs"

section \<open>Evaluation\<close>

lemmas allocator_eval =
  CustomAllocator_def CustomAllocator_default_def expand_def allocate_def deallocate_def
  vector_max_size_def Let_def

lemmas container_eval =
  CustomContainer_def CustomContainer_default_def add_def construct_at_def deref_def
  display_def container_size_def container_empty_def overlap_def show_int_def
  my_container_def


lemma Suc_Suc_0: "Suc (Suc 0) = 2"
  by simp

lemma deallocate_allocated: "allocated (fst (deallocate a p n)) = allocated a"
  by (simp add: deallocate_def)

lemma replicate_10: "replicate 10 x = [x, x, x, x, x, x, x, x, x, x]"
  by (simp add: numeral_eq_Suc)

section \<open>Zero-size requests\<close>

text \<open>
  C5: in every allocator state \<open>allocate(0)\<close> returns null and leaves the state (the
  cursor and the live set with it) as it was.
\<close>

theorem allocate_zero: "allocate sizeof_T a 0 = Inr (nullptr, a)"
  by (simp add: allocate_def)

section \<open>Growth\<close>

text \<open>
  C2: with \<open>block_size = 10\<close> and a 4-byte element the constructor leaves a buffer of
  40 bytes; ten calls \<open>allocate(1)\<close> bring the cursor to 40 and leave the buffer at 40
  (the test is a strict \<open>>\<close>, so the tenth call does not grow); the eleventh call grows
  the buffer to 80 bytes.
\<close>

theorem scenario_A:
  "CustomAllocator 4 10 =
     Inr \<lparr>block_size = 10, allocated = 0, buffer = 40, buffer_data = 1,
          allocated_objects = {}\<rparr>
   \<and> run 4 \<lparr>block_size = 10, allocated = 0, buffer = 40, buffer_data = 1,
             allocated_objects = {}\<rparr>
         (replicate 10 (Allocate 1)) =
     Inr (map (\<lambda>k. (Ptr 1 k, 1)) [0, 4, 8, 12, 16, 20, 24, 28, 32, 36],
          \<lparr>block_size = 10, allocated = 40, buffer = 40, buffer_data = 1,
           allocated_objects = Ptr 1 ` {0, 4, 8, 12, 16, 20, 24, 28, 32, 36}\<rparr>)
   \<and> allocate 4 \<lparr>block_size = 10, allocated = 40, buffer = 40, buffer_data = 1,
           allocated_objects = Ptr 1 ` {0, 4, 8, 12, 16, 20, 24, 28, 32, 36}\<rparr> 1 =
     Inr (Ptr 2 40,
          \<lparr>block_size = 10, allocated = 44, buffer = 80, buffer_data = 2,
           allocated_objects =
             insert (Ptr 2 40) (Ptr 1 ` {0, 4, 8, 12, 16, 20, 24, 28, 32, 36})\<rparr>)"
  by (simp add: allocator_eval replicate_10 insert_commute Suc_Suc_0)

text \<open>
  C1, at the input \<open>block_size = 10\<close>, \<open>sizeof(T) = 4\<close>, \<open>allocate(30)\<close> on the fresh
  allocator: the request needs 120 bytes, \<open>expand\<close> runs once and the buffer is 80
  bytes long, so the cursor (120) is beyond the end of the buffer.
\<close>

theorem oversized_request_leaves_cursor_beyond_buffer:
  "CustomAllocator 4 10 =
     Inr \<lparr>block_size = 10, allocated = 0, buffer = 40, buffer_data = 1,
          allocated_objects = {}\<rparr>
   \<and> allocate 4 \<lparr>block_size = 10, allocated = 0, buffer = 40, buffer_data = 1,
                  allocated_objects = {}\<rparr> 30 =
     Inr (Ptr 2 0,
          \<lparr>block_size = 10, allocated = 120, buffer = 80, buffer_data = 2,
           allocated_objects = {Ptr 2 0}\<rparr>)
   \<and> \<not> cursor_in_buffer
          \<lparr>block_size = 10, allocated = 120, buffer = 80, buffer_data = 2,
           allocated_objects = {Ptr 2 0}\<rparr>"
  by (simp add: allocator_eval cursor_in_buffer_def Suc_Suc_0)

text \<open>
  C3, at the input \<open>block_size = 10\<close>, \<open>sizeof(T) = 4\<close>, \<open>allocate(5)\<close> then
  \<open>allocate(25)\<close>: 120 bytes have been asked for and handed out, and the capacity
  is 80 bytes.
\<close>

theorem capacity_below_bytes_requested:
  "run 4 \<lparr>block_size = 10, allocated = 0, buffer = 40, buffer_data = 1,
          allocated_objects = {}\<rparr>
       [Allocate 5, Allocate 25] =
     Inr ([(Ptr 1 0, 5), (Ptr 2 20, 25)],
          \<lparr>block_size = 10, allocated = 120, buffer = 80, buffer_data = 2,
           allocated_objects = {Ptr 1 0, Ptr 2 20}\<rparr>)
   \<and> bytes_requested 4 [Allocate 5, Allocate 25] = 120
   \<and> unat (buffer \<lparr>block_size = 10, allocated = 120, buffer = 80, buffer_data = 2,
           allocated_objects = {Ptr 1 0, Ptr 2 20}\<rparr>)
       < bytes_requested 4 [Allocate 5, Allocate 25]"
  by (simp add: allocator_eval insert_commute Suc_Suc_0)

text \<open>
  The two inputs above ask for more than \<open>block_size\<close> elements in one call. When
  no call asks for more than \<open>block_size\<close> elements, and one growth increment
  \<open>block_size * sizeof(T)\<close> is below \<open>2 ^ 63\<close> bytes, one growth step is enough: the
  cursor stays within the buffer, and the capacity covers the bytes asked for.
\<close>

lemma allocate_within_block_size:
  assumes c: "cursor_in_buffer a" and m: "buffer a \<le> vector_max_size"
    and al: "allocate sizeof_T a n = Inr (p, a')"
    and n: "n \<le> block_size a" and inc: "unat (block_size a) * unat sizeof_T < 2 ^ 63"
  shows "cursor_in_buffer a'" and "buffer a' \<le> vector_max_size"
    and "block_size a' = block_size a"
    and "unat (allocated a') = unat (allocated a) + unat n * unat sizeof_T"
proof -
  have nb: "unat n * unat sizeof_T \<le> unat (block_size a) * unat sizeof_T"
    using n by (simp add: word_le_nat_alt mult_le_mono1)
  have mx: "unat (buffer a) < 2 ^ 63"
    using m by (simp add: vector_max_size_def word_le_nat_alt)
  have ab: "unat (allocated a) \<le> unat (buffer a)"
    using c by (simp add: cursor_in_buffer_def word_le_nat_alt)
  have n63: "unat n * unat sizeof_T < 2 ^ 63"
    using le_less_trans [OF nb inc] .
  then have "unat n * unat sizeof_T < 2 ^ LENGTH(64)"
    by simp
  then have un: "unat (n * sizeof_T) = unat n * unat sizeof_T"
    using unat_mult_lem [of n sizeof_T] by blast
  have "unat (block_size a) * unat sizeof_T < 2 ^ LENGTH(64)"
    using inc by simp
  then have ub: "unat (block_size a * sizeof_T) = unat (block_size a) * unat sizeof_T"
    using unat_mult_lem [of "block_size a" sizeof_T] by blast
  have "unat (allocated a) + unat (n * sizeof_T) < 2 ^ LENGTH(64)"
    using ab mx n63 un by simp
  then have ua: "unat (allocated a + n * sizeof_T) = unat (allocated a) + unat n * unat sizeof_T"
    using un unat_add_lem [of "allocated a" "n * sizeof_T"] by simp
  have "unat (buffer a) + unat (block_size a * sizeof_T) < 2 ^ LENGTH(64)"
    using mx inc ub by simp
  then have ue: "unat (buffer a + block_size a * sizeof_T)
      = unat (buffer a) + unat (block_size a) * unat sizeof_T"
    using ub unat_add_lem [of "buffer a" "block_size a * sizeof_T"] by simp
  show "unat (allocated a') = unat (allocated a) + unat n * unat sizeof_T"
    using al ua by (auto simp: allocate_def expand_def Let_def split: if_splits sum.splits)
  show "block_size a' = block_size a"
    using al by (auto simp: allocate_def expand_def Let_def split: if_splits sum.splits)
  show "buffer a' \<le> vector_max_size"
    using al m by (auto simp: allocate_def expand_def Let_def split: if_splits sum.splits)
  have key: "unat (allocated a) + unat n * unat sizeof_T
      \<le> unat (buffer a) + unat (block_size a) * unat sizeof_T"
    using ab nb by (rule add_mono)
  show "cursor_in_buffer a'"
    using al c ua ue key
    by (auto simp: allocate_def expand_def Let_def cursor_in_buffer_def word_le_nat_alt
        word_less_nat_alt split: if_splits sum.splits)
qed

lemma run_within_block_size:
  assumes "run sizeof_T a cs = Inr (rs, a')"
    and "cursor_in_buffer a" and "buffer a \<le> vector_max_size"
    and "requests_at_most (block_size a) cs"
    and "unat (block_size a) * unat sizeof_T < 2 ^ 63"
  shows "cursor_in_buffer a'
    \<and> unat (allocated a') = unat (allocated a) + bytes_requested sizeof_T cs"
  using assms
proof (induction sizeof_T a cs arbitrary: rs a' rule: run.induct)
  case (1 sizeof_T a)
  then show ?case by simp
next
  case (2 sizeof_T a n cs)
  from "2.prems"(1) obtain p a1 rs1 where
    al: "allocate sizeof_T a n = Inr (p, a1)" and
    rn: "run sizeof_T a1 cs = Inr (rs1, a')"
    by (auto split: sum.splits prod.splits)
  have n: "n \<le> block_size a" and rest: "requests_at_most (block_size a) cs"
    using "2.prems"(4) by simp_all
  note st = allocate_within_block_size [OF "2.prems"(2,3) al n "2.prems"(5)]
  have "cursor_in_buffer a'
    \<and> unat (allocated a') = unat (allocated a1) + bytes_requested sizeof_T cs"
    using "2.IH" [OF al refl rn st(1,2)] rest "2.prems"(5) st(3) by simp
  then show ?case
    using st(4) by simp
next
  case (3 sizeof_T a p n cs)
  have d: "cursor_in_buffer (fst (deallocate a p n))"
    "buffer (fst (deallocate a p n)) \<le> vector_max_size"
    "block_size (fst (deallocate a p n)) = block_size a"
    using "3.prems"(2,3) by (simp_all add: deallocate_def cursor_in_buffer_def)
  have rn: "run sizeof_T (fst (deallocate a p n)) cs = Inr (rs, a')"
    using "3.prems"(1) by simp
  show ?case
    using "3.IH" [OF rn d(1,2)] "3.prems"(4,5) d(3) by (simp add: deallocate_allocated)
qed

lemma capacity_covers_requests_within_block_size:
  assumes "CustomAllocator sizeof_T bs = Inr a" and "run sizeof_T a cs = Inr (rs, a')"
    and "requests_at_most bs cs" and "unat bs * unat sizeof_T < 2 ^ 63"
  shows "cursor_in_buffer a'" and "bytes_requested sizeof_T cs \<le> unat (buffer a')"
proof -
  have a: "cursor_in_buffer a" "buffer a \<le> vector_max_size" "block_size a = bs" "allocated a = 0"
    using assms(1)
    by (auto simp: CustomAllocator_def expand_def Let_def cursor_in_buffer_def split: if_splits)
  have r: "cursor_in_buffer a'
    \<and> unat (allocated a') = unat (allocated a) + bytes_requested sizeof_T cs"
    using run_within_block_size [OF assms(2) a(1,2)] assms(3,4) a(3) by simp
  then show "cursor_in_buffer a'" by simp
  show "bytes_requested sizeof_T cs \<le> unat (buffer a')"
    using r a(4) by (simp add: cursor_in_buffer_def word_le_nat_alt)
qed

section \<open>Allocations do not overlap\<close>


text \<open>
  One call: when the cursor does not wrap around, it advances by the bytes asked
  for, and the bytes handed out lie between the old and the new cursor.
\<close>

lemma allocate_span:
  assumes "allocate sizeof_T a n = Inr (p, a')"
    and "unat (allocated a) + unat n * unat sizeof_T < 2 ^ 64"
  shows "unat (allocated a') = unat (allocated a) + unat n * unat sizeof_T"
    and "bytes_of (span sizeof_T (p, n)) \<subseteq> {unat (allocated a) ..< unat (allocated a')}"
proof -
  have m: "unat (n * sizeof_T) = unat n * unat sizeof_T"
    using assms(2) unat_mult_lem [of n sizeof_T] by simp
  have s: "unat (allocated a + n * sizeof_T) = unat (allocated a) + unat n * unat sizeof_T"
    using assms(2) m unat_add_lem [of "allocated a" "n * sizeof_T"] by simp
  show "unat (allocated a') = unat (allocated a) + unat n * unat sizeof_T"
    using assms(1) s
    by (auto simp: allocate_def expand_def Let_def split: if_splits sum.splits)
  show "bytes_of (span sizeof_T (p, n)) \<subseteq> {unat (allocated a) ..< unat (allocated a')}"
    using assms(1) s
    by (auto simp: allocate_def expand_def Let_def span_def bytes_of_def
        split: if_splits sum.splits)
qed






section \<open>Insertion order of the container\<close>

text \<open>
  An \<open>add\<close> returns the address at the cursor in the block the buffer has after the
  call; the number of the block never goes down, and \<^verbatim>\<open>data\<close> gets one address
  longer.
\<close>

lemma allocate_1_result:
  assumes "allocate sizeof_T a 1 = Inr (p, a')"
  shows "p = Ptr (buffer_data a') (allocated a)" and "buffer_data a \<le> buffer_data a'"
  using assms
  by (auto simp: allocate_def expand_def Let_def split: if_splits sum.splits)

lemma add_buffer_data:
  assumes "add sizeof_T c v = Inr c'"
  shows "buffer_data (alloc c) \<le> buffer_data (alloc c')"
  using assms allocate_1_result(2) [of sizeof_T "alloc c"]
  by (auto simp: add_def split: sum.splits prod.splits)

lemma add_all_buffer_data:
  assumes "add_all sizeof_T c vs = Inr c'"
  shows "buffer_data (alloc c) \<le> buffer_data (alloc c')"
  using assms
proof (induction vs arbitrary: c)
  case Nil
  then show ?case by simp
next
  case (Cons v vs)
  from Cons.prems obtain c1 where
    a: "add sizeof_T c v = Inr c1" and r: "add_all sizeof_T c1 vs = Inr c'"
    by (auto split: sum.splits)
  show ?case
    using add_buffer_data [OF a] Cons.IH [OF r] by simp
qed

lemma add_data:
  assumes "add sizeof_T c v = Inr c'"
  shows "length (data c') = Suc (length (data c))"
  using assms by (auto simp: add_def split: sum.splits prod.splits)

lemma add_all_data:
  assumes "add_all sizeof_T c vs = Inr c'"
  shows "length (data c') = length (data c) + length vs"
  using assms
proof (induction vs arbitrary: c)
  case Nil
  then show ?case by simp
next
  case (Cons v vs)
  from Cons.prems obtain c1 where
    a: "add sizeof_T c v = Inr c1" and r: "add_all sizeof_T c1 vs = Inr c'"
    by (auto split: sum.splits)
  show ?case
    using add_data [OF a] Cons.IH [OF r] by simp
qed

text \<open>
  One \<open>add\<close> that returns normally and keeps the buffer in its block keeps every
  element already stored and appends the new one: the new object starts at the old
  cursor, at or above the end of every earlier element, and lies inside the buffer.
\<close>

lemma add_holds:
  assumes h: "holds sizeof_T c us" and z: "sizeof_T \<noteq> 0" and a: "add sizeof_T c v = Inr c'"
    and same: "buffer_data (alloc c') = buffer_data (alloc c)"
  shows "holds sizeof_T c' (us @ [v])"
proof -
  let ?k = "allocated (alloc c)"
  let ?b = "buffer_data (alloc c)"
  from a obtain p a' m where
    al0: "allocate sizeof_T (alloc c) 1 = Inr (p, a')" and
    cs0: "construct_at sizeof_T a' (objects c) p v = Inr m" and
    c': "c' = \<lparr>alloc = a', data = data c @ [p], objects = m\<rparr>"
    by (auto simp: add_def split: sum.splits prod.splits)
  have b: "buffer_data a' = ?b"
    using same by (simp add: c')
  have p: "p = Ptr ?b ?k"
    using allocate_1_result(1) [OF al0] b by simp
  note al = al0 [unfolded p] and cs = cs0 [unfolded p]
  have inb: "unat ?k + unat sizeof_T \<le> unat (buffer a')"
    using cs by (auto simp: construct_at_def split: if_splits)
  have m: "m = (\<lambda>j. if overlap (unat j, unat j + unat sizeof_T) (unat ?k, unat ?k + unat sizeof_T)
                          then None else objects c j)(?k \<mapsto> v)"
    using cs by (auto simp: construct_at_def split: if_splits)
  have "unat (buffer a') < 2 ^ LENGTH(64)"
    by (rule unsigned_less)
  then have lt: "unat ?k + unat sizeof_T < 2 ^ 64"
    using inb by simp
  have cur: "unat (allocated a') = unat ?k + unat sizeof_T"
    using allocate_span(1) [OF al] lt by simp
  have pos: "0 < unat sizeof_T"
    using z by (simp add: unat_gt_0)
  have old: "list_all2 (\<lambda>p v. \<exists>k. p = Ptr (buffer_data (alloc c')) k \<and> objects c' k = Some v
         \<and> unat k + unat sizeof_T \<le> unat (allocated (alloc c'))) (data c) us"
    using h unfolding holds_def
  proof (rule list_all2_mono)
    fix q u
    assume "\<exists>k. q = Ptr ?b k \<and> objects c k = Some u \<and> unat k + unat sizeof_T \<le> unat ?k"
    then obtain k where k: "q = Ptr ?b k" "objects c k = Some u" "unat k + unat sizeof_T \<le> unat ?k"
      by blast
    have ne: "k \<noteq> ?k"
      using k(3) pos by auto
    have "objects c' k = Some u"
      using k ne pos by (simp add: c' m overlap_def)
    moreover have "unat k + unat sizeof_T \<le> unat (allocated (alloc c'))"
      using k(3) cur by (simp add: c')
    ultimately show "\<exists>k. q = Ptr (buffer_data (alloc c')) k \<and> objects c' k = Some u
         \<and> unat k + unat sizeof_T \<le> unat (allocated (alloc c'))"
      using k(1) same by auto
  qed
  have new: "list_all2 (\<lambda>p v. \<exists>k. p = Ptr (buffer_data (alloc c')) k \<and> objects c' k = Some v
         \<and> unat k + unat sizeof_T \<le> unat (allocated (alloc c'))) [p] [v]"
    using cur b by (simp add: c' m p)
  show ?thesis
    unfolding holds_def using list_all2_appendI [OF old new] by (simp add: c')
qed

lemma add_all_holds:
  assumes "holds sizeof_T c us" and "sizeof_T \<noteq> 0" and "add_all sizeof_T c vs = Inr c'"
    and "buffer_data (alloc c') = buffer_data (alloc c)"
  shows "holds sizeof_T c' (us @ vs)"
  using assms
proof (induction vs arbitrary: c us)
  case Nil
  then show ?case by simp
next
  case (Cons v vs)
  from Cons.prems(3) obtain c1 where
    a: "add sizeof_T c v = Inr c1" and r: "add_all sizeof_T c1 vs = Inr c'"
    by (auto split: sum.splits)
  have s1: "buffer_data (alloc c1) = buffer_data (alloc c)"
    using add_buffer_data [OF a] add_all_buffer_data [OF r] Cons.prems(4) by simp
  have "holds sizeof_T c1 (us @ [v])"
    using add_holds [OF Cons.prems(1,2) a s1] .
  moreover have "buffer_data (alloc c') = buffer_data (alloc c1)"
    using s1 Cons.prems(4) by simp
  ultimately have "holds sizeof_T c' ((us @ [v]) @ vs)"
    using Cons.IH [OF _ Cons.prems(2) r] by blast
  then show ?case by simp
qed

lemma iterate_holds:
  assumes "list_all2 (\<lambda>p v. \<exists>k. p = Ptr (buffer_data (alloc c)) k \<and> objects c k = Some v \<and> Q k) ps vs"
  shows "iterate c ps = Inr vs"
  using assms by (induction rule: list_all2_induct) (auto simp: deref_def)

lemma display_loop_holds:
  assumes "list_all2 (\<lambda>p v. \<exists>k. p = Ptr (buffer_data (alloc c)) k \<and> objects c k = Some v \<and> Q k) ps vs"
  shows "display_loop shw c out ps = Inr (out @ concat (map (\<lambda>v. shw v @ '' '') vs))"
  using assms by (induction arbitrary: out rule: list_all2_induct) (auto simp: deref_def)

text \<open>
  What holds of \<open>add\<close> for every element type and every allocator: as long as the
  buffer has not been moved by the \<open>add\<close> calls, iteration yields the values in
  the order of insertion and \<open>display\<close> writes each of them followed by a space,
  then a newline. The size is the number of values whether the buffer moved or not.
\<close>

lemma insertion_order_in_one_block:
  assumes r: "add_all sizeof_T (CustomContainer a) vs = Inr c" and z: "sizeof_T \<noteq> 0"
    and same: "buffer_data (alloc c) = buffer_data a"
  shows "iterate c (data c) = Inr vs"
    and "display shw c = Inr (concat (map (\<lambda>v. shw v @ '' '') vs) @ [CHR 0x0A])"
proof -
  have "holds sizeof_T (CustomContainer a) []"
    by (simp add: holds_def CustomContainer_def)
  moreover have "buffer_data (alloc c) = buffer_data (alloc (CustomContainer a))"
    using same by (simp add: CustomContainer_def)
  ultimately have h: "holds sizeof_T c vs"
    using add_all_holds [OF _ z r] by fastforce
  show "iterate c (data c) = Inr vs"
    using h iterate_holds [of c _ "data c" vs] by (simp add: holds_def)
  show "display shw c = Inr (concat (map (\<lambda>v. shw v @ '' '') vs) @ [CHR 0x0A])"
    using h display_loop_holds [of c _ "data c" vs shw "[]"] by (simp add: holds_def display_def)
qed

lemma size_after_adds:
  assumes "add_all sizeof_T (CustomContainer a) vs = Inr c"
  shows "container_size c = length vs" and "container_empty c = (vs = [])"
  using add_all_data [OF assms]
  by (auto simp: container_size_def container_empty_def CustomContainer_def)

text \<open>
  C8. The container of \<^verbatim>\<open>main\<close>, an \<^verbatim>\<open>int\<close> container over the default
  allocator that receives \<open>0, ..., 9\<close>, yields these values in order, displays
  \<open>0 1 2 3 4 5 6 7 8 9 \<close> and a newline, has size 10 and is not empty. The same
  container with one value more, \<open>0, ..., 10\<close>: the eleventh \<open>add\<close> finds the 40
  bytes used up and grows the buffer, which moves it to block 2; the first ten
  addresses in \<^verbatim>\<open>data\<close> still point into block 1, which the vector has released,
  so iteration and \<open>display\<close> read through dangling pointers.
\<close>

theorem growth_invalidates_stored_elements:
  "(\<exists>c. my_container 4 [0, 1, 2, 3, 4, 5, 6, 7, 8, 9] = Inr c
      \<and> iterate c (data c) = Inr [0, 1, 2, 3, 4, 5, 6, 7, 8, 9]
      \<and> display show_int c = Inr (''0 1 2 3 4 5 6 7 8 9 '' @ [CHR 0x0A])
      \<and> container_size c = 10
      \<and> \<not> container_empty c)
   \<and> (\<exists>c. my_container 4 [0, 1, 2, 3, 4, 5, 6, 7, 8, 9, 10] = Inr c
      \<and> buffer_data (alloc c) = 2
      \<and> data c = map (Ptr 1) [0, 4, 8, 12, 16, 20, 24, 28, 32, 36] @ [Ptr 2 40]
      \<and> iterate c (data c) = Inl undefined_behaviour
      \<and> display show_int c = Inl undefined_behaviour)"
  by (simp add: container_eval allocator_eval Suc_Suc_0)

section \<open>Release\<close>

text \<open>
  C6: for a pointer \<open>p\<close> of the live set, \<open>deallocate(p, n)\<close> removes \<open>p\<close> from the
  live set and runs the destructor of the object at \<open>p\<close> once; a second
  \<open>deallocate\<close> of the same pointer changes nothing and runs no destructor.
\<close>

theorem deallocate_tracked:
  assumes "p \<in> allocated_objects a"
  shows "deallocate a p n = (a\<lparr>allocated_objects := allocated_objects a - {p}\<rparr>, [p])
    \<and> p \<notin> allocated_objects (fst (deallocate a p n))
    \<and> deallocate (fst (deallocate a p n)) p m = (fst (deallocate a p n), [])"
  using assms by (simp add: deallocate_def)

theorem deallocate_tracked_witness:
  "Ptr 1 4 \<in> allocated_objects
       \<lparr>block_size = 10, allocated = 8, buffer = 40, buffer_data = 1,
        allocated_objects = {Ptr 1 0, Ptr 1 4}\<rparr>
   \<and> deallocate
       \<lparr>block_size = 10, allocated = 8, buffer = 40, buffer_data = 1,
        allocated_objects = {Ptr 1 0, Ptr 1 4}\<rparr>
       (Ptr 1 4) 1 =
     (\<lparr>block_size = 10, allocated = 8, buffer = 40, buffer_data = 1,
       allocated_objects = {Ptr 1 0}\<rparr>,
      [Ptr 1 4])
   \<and> deallocate
       \<lparr>block_size = 10, allocated = 8, buffer = 40, buffer_data = 1,
        allocated_objects = {Ptr 1 0}\<rparr>
       (Ptr 1 4) 1 =
     (\<lparr>block_size = 10, allocated = 8, buffer = 40, buffer_data = 1,
       allocated_objects = {Ptr 1 0}\<rparr>,
      [])"
  using deallocate_tracked
    [of "Ptr 1 4"
        "\<lparr>block_size = 10, allocated = 8, buffer = 40, buffer_data = 1,
          allocated_objects = {Ptr 1 0, Ptr 1 4}\<rparr>"
        1 1]
  by (simp add: deallocate_def insert_Diff_if)

text \<open>
  C7: for a pointer \<open>p\<close> that is not in the live set, \<open>deallocate(p, n)\<close> returns the
  state it was given (cursor, buffer and live set) and runs no destructor. The
  function has no failing branch.
\<close>

theorem deallocate_untracked:
  assumes "p \<notin> allocated_objects a"
  shows "deallocate a p n = (a, [])"
  using assms by (simp add: deallocate_def)

theorem deallocate_untracked_witness:
  "Ptr 1 12 \<notin> allocated_objects
       \<lparr>block_size = 10, allocated = 8, buffer = 40, buffer_data = 1,
        allocated_objects = {Ptr 1 0, Ptr 1 4}\<rparr>
   \<and> deallocate
       \<lparr>block_size = 10, allocated = 8, buffer = 40, buffer_data = 1,
        allocated_objects = {Ptr 1 0, Ptr 1 4}\<rparr>
       (Ptr 1 12) 3 =
     (\<lparr>block_size = 10, allocated = 8, buffer = 40, buffer_data = 1,
       allocated_objects = {Ptr 1 0, Ptr 1 4}\<rparr>,
      [])"
  using deallocate_untracked
    [of "Ptr 1 12"
        "\<lparr>block_size = 10, allocated = 8, buffer = 40, buffer_data = 1,
          allocated_objects = {Ptr 1 0, Ptr 1 4}\<rparr>"
        3]
  by (simp add: deallocate_def)

section \<open>What a release destroys and what an allocation tracks\<close>









section \<open>Construction with a block size of zero\<close>

text \<open>
  C9 as stated (a zero block size is rejected or replaced by a positive default)
  fails: the constructor returns an allocator whose block size is 0 and whose
  buffer is empty.
\<close>

theorem zero_block_size_counterexample:
  "CustomAllocator 4 0 =
     Inr \<lparr>block_size = 0, allocated = 0, buffer = 0, buffer_data = 0,
          allocated_objects = {}\<rparr>"
  by (simp add: allocator_eval)

text \<open>
  C9 as amended: the constructor accepts a zero block size as it is, for every
  element size: the allocator it returns has \<open>block_size = 0\<close> and an empty buffer.
  Whatever block size the constructor is given is the block size of the allocator
  it returns, and only the parameterless constructor supplies a value, 10.
\<close>

theorem zero_block_size_accepted:
  "CustomAllocator sizeof_T 0 =
     Inr \<lparr>block_size = 0, allocated = 0, buffer = 0, buffer_data = 0,
          allocated_objects = {}\<rparr>
   \<and> (\<forall>a. CustomAllocator sizeof_T bs = Inr a \<longrightarrow> block_size a = bs)
   \<and> CustomAllocator_default sizeof_T = CustomAllocator sizeof_T 10"
  by (auto simp: allocator_eval split: if_splits)

theorem zero_block_size_accepted_witness:
  "CustomAllocator 4 0 =
     Inr \<lparr>block_size = 0, allocated = 0, buffer = 0, buffer_data = 0,
          allocated_objects = {}\<rparr>
   \<and> CustomAllocator 4 10 =
     Inr \<lparr>block_size = 10, allocated = 0, buffer = 40, buffer_data = 1,
          allocated_objects = {}\<rparr>
   \<and> block_size \<lparr>block_size = 10, allocated = 0, buffer = 40, buffer_data = 1,
                  allocated_objects = {}\<rparr> = 10
   \<and> CustomAllocator_default 4 = CustomAllocator 4 10"
  using zero_block_size_accepted [of 4 10]
  by (simp add: allocator_eval)

end
